theory Spec2Isabelle
  imports Complex_Main "HOL-Library.Multiset"
begin

section \<open>Numbers and text\<close>

text \<open>
  The two scripts, \<^verbatim>\<open>(manual)rtingsParser_autoEq.py\<close> and \<^verbatim>\<open>autoExtractor.py\<close>, compute with
  Python numbers. A Python \<^verbatim>\<open>float\<close> is modelled by the exact rational it denotes: binary
  rounding, overflow to infinity, underflow to zero and the negative zero are outside this
  model. The integer
  literals \<^verbatim>\<open>32\<close> and \<^verbatim>\<open>-32\<close> of \<^verbatim>\<open>scale_gain\<close> stay integers, since \<^verbatim>\<open>min\<close> and
  \<^verbatim>\<open>max\<close> return one of their arguments unchanged and the plain writer of
  \<^verbatim>\<open>autoExtractor.py\<close> prints an \<^verbatim>\<open>int\<close> differently from a \<^verbatim>\<open>float\<close>.

  A Python \<^verbatim>\<open>str\<close> is modelled by a \<^typ>\<open>string\<close> whose characters are the code points below
  256; among them the class \<^verbatim>\<open>\d\<close> of the regular expression is the ten digits 0 to 9.
\<close>

datatype number = PyInt int | PyFloat rat

fun val :: "number \<Rightarrow> rat" where
  "val (PyInt i) = of_int i"
| "val (PyFloat x) = x"

text \<open>
  The builtins \<^verbatim>\<open>min(a, b)\<close> and \<^verbatim>\<open>max(a, b)\<close>: the first argument is returned unless the
  second is strictly smaller (strictly larger).
\<close>

definition py_min :: "number \<Rightarrow> number \<Rightarrow> number" where
  "py_min a b = (if val b < val a then b else a)"

definition py_max :: "number \<Rightarrow> number \<Rightarrow> number" where
  "py_max a b = (if val b > val a then b else a)"

definition is_digit :: "char \<Rightarrow> bool" where
  "is_digit c = (c \<in> set ''0123456789'')"

definition digit_val :: "char \<Rightarrow> nat" where
  "digit_val c = of_char c - 48"

text \<open>The value of a run of decimal digits, most significant first; the empty run counts 0.\<close>

definition dec :: "string \<Rightarrow> nat" where
  "dec ds = foldl (\<lambda>n c. 10 * n + digit_val c) 0 ds"

text \<open>
  \<^verbatim>\<open>str.isspace\<close> on the code points below 256, which decides what \<^verbatim>\<open>str.strip()\<close> removes.
\<close>

definition py_isspace :: "char \<Rightarrow> bool" where
  "py_isspace c = ((of_char c :: nat) \<in> set [9, 10, 11, 12, 13, 28, 29, 30, 31, 32, 133, 160])"

definition strip :: "string \<Rightarrow> string" where
  "strip s = rev (dropWhile py_isspace (rev (dropWhile py_isspace s)))"

text \<open>
  The builtin \<^verbatim>\<open>float(num)\<close> on the strings that reach it. It is only called on the result of
  \<^verbatim>\<open>re.sub(r"[^\d.-]", "", value)\<close>, a string over the digits, \<^verbatim>\<open>.\<close> and \<^verbatim>\<open>-\<close>; there
  Python's grammar for a float literal is an optional leading sign followed by
  \<^verbatim>\<open>digits ["." [digits]]\<close> or \<^verbatim>\<open>"." digits\<close>. Every other string raises \<^verbatim>\<open>ValueError\<close>,
  the value \<^const>\<open>None\<close> here.
\<close>

definition py_number :: "string \<Rightarrow> rat option" where
  "py_number s =
     (let ip = takeWhile is_digit s; rest = dropWhile is_digit s
      in case rest of
           [] \<Rightarrow> if ip = [] then None else Some (of_nat (dec ip))
         | c # fp \<Rightarrow>
             if c = CHR ''.'' \<and> list_all is_digit fp \<and> (ip \<noteq> [] \<or> fp \<noteq> [])
             then Some (of_nat (dec ip) + of_nat (dec fp) / 10 ^ length fp)
             else None)"

definition py_float :: "string \<Rightarrow> rat option" where
  "py_float s =
     (case s of
        [] \<Rightarrow> None
      | c # r \<Rightarrow> if c = CHR ''-'' then map_option uminus (py_number r) else py_number s)"

section \<open>Cleaning a cell\<close>

text \<open>
  \<^verbatim>\<open>clean_number(value)\<close>, the same text in both scripts. The cells come from
  \<^verbatim>\<open>get_text()\<close> and are strings, so the \<^verbatim>\<open>isinstance(value, (int, float))\<close> branch is not
  taken.
\<close>

definition keep_char :: "char \<Rightarrow> bool" where
  "keep_char c = (is_digit c \<or> c = CHR ''.'' \<or> c = CHR ''-'')"

definition re_sub_non_numeric :: "string \<Rightarrow> string" where
  "re_sub_non_numeric v = filter keep_char v"

definition clean_number :: "string \<Rightarrow> rat option" where
  "clean_number v =
     (if v = [] \<or> strip v = [] then None
      else py_float (re_sub_non_numeric v))"

section \<open>The document\<close>

text \<open>
  \<^verbatim>\<open>BeautifulSoup\<close> is a library outside the repository. A table is modelled by what the
  scripts read from it: for every \<^verbatim>\<open>tr\<close> of \<^verbatim>\<open>table.find_all("tr")\<close>, in document
  order, the \<^verbatim>\<open>get_text()\<close> of each element of \<^verbatim>\<open>tr.find_all("td")\<close>. The header texts are
  only printed and are left out, as are the other diagnostic prints. A parsed document is
  the result of \<^verbatim>\<open>soup.find("table")\<close>: the first table, or \<^const>\<open>None\<close>. The parser itself is
  a parameter of the entry points. A file system maps a path to the text of the file there.
\<close>

type_synonym table = "string list list"

type_synonym soup = "table option"

type_synonym filesystem = "string \<rightharpoonup> string"

text \<open>
  How a run ends. \<^verbatim>\<open>open\<close> on a missing input raises \<^verbatim>\<open>FileNotFoundError\<close> in the manual
  script; the other script tests \<^verbatim>\<open>os.path.exists\<close> first, reports and returns. The other two
  are the early returns after \<^verbatim>\<open>"No table found in the HTML file."\<close> and after
  \<^verbatim>\<open>"No valid data found in the table."\<close>
  (\<^verbatim>\<open>"Error: No valid frequency response data extracted."\<close> in \<^verbatim>\<open>autoExtractor.py\<close>).
  The destination is taken to be writable.
\<close>

datatype error = FileNotFoundError | InputNotFound | NoTableFound | NoValidData

section \<open>The manual script\<close>

subsection \<open>Extraction\<close>

text \<open>The body of the loop over the rows: the triple appended for one row, if any.\<close>

definition extract_row :: "string list \<Rightarrow> (rat \<times> rat \<times> rat) option" where
  "extract_row cells =
     (if length cells \<ge> 4 then
        (case clean_number (cells ! 0) of
           None \<Rightarrow> None
         | Some freq \<Rightarrow>
            (case clean_number (cells ! 1) of
               None \<Rightarrow> None
             | Some target \<Rightarrow>
                (case clean_number (cells ! 3) of
                   None \<Rightarrow> None
                 | Some avg_response \<Rightarrow> Some (freq, target, avg_response))))
      else None)"

fun extract_rows :: "table \<Rightarrow> (rat \<times> rat \<times> rat) list" where
  "extract_rows [] = []"
| "extract_rows (cells # trs) =
     (case extract_row cells of
        None \<Rightarrow> extract_rows trs
      | Some row \<Rightarrow> row # extract_rows trs)"

text \<open>\<^verbatim>\<open>rows.sort(key=lambda x: x[0])\<close>: Python's sort is stable, as \<^const>\<open>sort_key\<close> is.\<close>

definition sort_rows :: "(rat \<times> rat \<times> rat) list \<Rightarrow> (rat \<times> rat \<times> rat) list" where
  "sort_rows rows = sort_key fst rows"

subsection \<open>Correction\<close>

definition scale_gain :: "number \<Rightarrow> number" where
  "scale_gain gain = py_max (PyInt (- 32)) (py_min (PyInt 32) gain)"

fun apply_eq_correction :: "(rat \<times> rat \<times> rat) list \<Rightarrow> (rat \<times> number) list" where
  "apply_eq_correction [] = []"
| "apply_eq_correction ((f, target, avg_response) # data) =
     (f, scale_gain (PyFloat (target - avg_response))) # apply_eq_correction data"

subsection \<open>Serialization\<close>

definition digit_char :: "nat \<Rightarrow> char" where
  "digit_char d = char_of (48 + d)"

fun show_nat :: "nat \<Rightarrow> string" where
  "show_nat n = (if n < 10 then [digit_char n] else show_nat (n div 10) @ [digit_char (n mod 10)])"

declare show_nat.simps [simp del]

definition show_int :: "int \<Rightarrow> string" where
  "show_int i = (if i < 0 then CHR ''-'' # show_nat (nat (- i)) else show_nat (nat i))"

text \<open>\<^verbatim>\<open>int(f)\<close> on a float: the fractional part is discarded, towards zero.\<close>

definition trunc :: "rat \<Rightarrow> int" where
  "trunc x = (if x < 0 then \<lceil>x\<rceil> else \<lfloor>x\<rfloor>)"

text \<open>
  The format \<^verbatim>\<open>.2f\<close>: the sign when the number is negative, the integer part, a point and
  two digits, of the number rounded to hundredths. Python rounds the exact value held by
  the float, a tie going to the even neighbour; here the exact value is the rational.
\<close>

definition round_half_even :: "rat \<Rightarrow> nat" where
  "round_half_even x =
     (let n = nat \<lfloor>x\<rfloor>; r = x - of_int \<lfloor>x\<rfloor>
      in if r < 1 / 2 then n else if r > 1 / 2 then n + 1 else if even n then n else n + 1)"

definition format_2f :: "number \<Rightarrow> string" where
  "format_2f g =
     (let h = round_half_even (\<bar>val g\<bar> * 100)
      in (if val g < 0 then ''-'' else []) @ show_nat (h div 100) @ ''.''
           @ [digit_char (h mod 100 div 10), digit_char (h mod 10)])"

text \<open>\<^verbatim>\<open>sep.join(parts)\<close>.\<close>

fun join :: "string \<Rightarrow> string list \<Rightarrow> string" where
  "join sep [] = []"
| "join sep [p] = p"
| "join sep (p # q # ps) = p @ sep @ join sep (q # ps)"

definition render_point :: "rat \<times> number \<Rightarrow> string" where
  "render_point p = (case p of (f, g) \<Rightarrow> show_int (trunc f) @ '' '' @ format_2f g)"

definition eq_string :: "(rat \<times> number) list \<Rightarrow> string" where
  "eq_string eq_data = ''GraphicEQ: '' @ join ''; '' (map render_point eq_data)"

text \<open>
  \<^verbatim>\<open>save_graphic_eq_format\<close> opens the destination for writing, which replaces what was
  there, and writes the line and a newline.
\<close>

definition save_graphic_eq_format ::
  "(rat \<times> number) list \<Rightarrow> string \<Rightarrow> filesystem \<Rightarrow> filesystem" where
  "save_graphic_eq_format eq_data output_file fs =
     fs(output_file \<mapsto> eq_string eq_data @ [CHR 0x0A])"

subsection \<open>The entry point\<close>

definition extract_and_clean_rtings_data ::
  "(string \<Rightarrow> soup) \<Rightarrow> string \<Rightarrow> string \<Rightarrow> filesystem \<Rightarrow> (error + unit) \<times> filesystem" where
  "extract_and_clean_rtings_data BeautifulSoup html_file output_file fs =
     (case fs html_file of
        None \<Rightarrow> (Inl FileNotFoundError, fs)
      | Some text \<Rightarrow>
         (case BeautifulSoup text of
            None \<Rightarrow> (Inl NoTableFound, fs)
          | Some table \<Rightarrow>
             (let rows = extract_rows table
              in if rows = [] then (Inl NoValidData, fs)
                 else (let rows = sort_rows rows;
                           eq_data = apply_eq_correction rows
                       in (Inr (), save_graphic_eq_format eq_data output_file fs)))))"

section \<open>The other script, \<^verbatim>\<open>autoExtractor.py\<close>\<close>


definition auto_scale_gain :: "number \<Rightarrow> number" where
  "auto_scale_gain gain = py_max (PyInt (- 32)) (py_min (PyInt 32) gain)"

fun auto_apply_eq_correction :: "(rat \<times> rat \<times> rat) list \<Rightarrow> (rat \<times> number) list" where
  "auto_apply_eq_correction [] = []"
| "auto_apply_eq_correction ((freq, target, avg_response) # data) =
     (freq, auto_scale_gain (PyFloat (target - avg_response))) # auto_apply_eq_correction data"





section \<open>The corrector\<close>

lemma val_scale_gain: "val (scale_gain g) = max (- 32) (min 32 (val g))"
  by (simp add: scale_gain_def py_max_def py_min_def max_def min_def)

lemma apply_eq_correction_map:
  "apply_eq_correction data =
     map (\<lambda>(f, target, avg_response). (f, scale_gain (PyFloat (target - avg_response)))) data"
  by (induction data rule: apply_eq_correction.induct) simp_all

text \<open>
  C1. For every list of raw rows, the gain of each produced point is
  \<open>max (-32) (min 32 (target - measured))\<close> of its row, so every gain lies between
  \<open>-32\<close> and \<open>32\<close>; the corrector is a total function and returns a point for every row.
\<close>

theorem corrector_gain_is_clamp:
  "map (\<lambda>p. val (snd p)) (apply_eq_correction data) =
     map (\<lambda>(f, target, measured). max (- 32) (min 32 (target - measured))) data
   \<and> (\<forall>p \<in> set (apply_eq_correction data). - 32 \<le> val (snd p) \<and> val (snd p) \<le> 32)"
proof
  show "map (\<lambda>p. val (snd p)) (apply_eq_correction data) =
     map (\<lambda>(f, target, measured). max (- 32) (min 32 (target - measured))) data"
    by (induction data rule: apply_eq_correction.induct) (simp_all add: val_scale_gain)
  show "\<forall>p \<in> set (apply_eq_correction data). - 32 \<le> val (snd p) \<and> val (snd p) \<le> 32"
    by (auto simp: apply_eq_correction_map val_scale_gain)
qed

theorem corrector_gain_is_clamp_witness:
  "(20, PyInt 32) \<in> set (apply_eq_correction [(20, 40, - 10)])
   \<and> map (\<lambda>p. val (snd p)) (apply_eq_correction [(20, 40, - 10)]) = [32]
   \<and> - 32 \<le> val (snd (20 :: rat, PyInt 32)) \<and> val (snd (20 :: rat, PyInt 32)) \<le> 32"
  using corrector_gain_is_clamp [of "[(20, 40, - 10)]"]
  by (simp add: scale_gain_def py_max_def py_min_def)

text \<open>
  C10. The corrector returns as many points as it was given rows, in the same order, each
  with the frequency of its row unchanged; this holds in both scripts.
\<close>

theorem corrector_keeps_frequencies:
  "length (apply_eq_correction data) = length data
   \<and> map fst (apply_eq_correction data) = map fst data
   \<and> length (auto_apply_eq_correction data) = length data
   \<and> map fst (auto_apply_eq_correction data) = map fst data"
proof -
  have "length (apply_eq_correction data) = length data
      \<and> map fst (apply_eq_correction data) = map fst data"
    by (induction data rule: apply_eq_correction.induct) simp_all
  moreover have "length (auto_apply_eq_correction data) = length data
      \<and> map fst (auto_apply_eq_correction data) = map fst data"
    by (induction data rule: auto_apply_eq_correction.induct) simp_all
  ultimately show ?thesis by simp
qed

section \<open>Cleaning and parsing\<close>

lemma isspace_not_kept: "py_isspace c \<Longrightarrow> \<not> keep_char c"
  by (auto simp: py_isspace_def keep_char_def is_digit_def)

lemma strip_Nil_all_space:
  assumes "strip v = []"
  shows "\<forall>c \<in> set v. py_isspace c"
proof (cases "dropWhile py_isspace v = []")
  case True
  then show ?thesis by (simp add: dropWhile_eq_Nil_conv)
next
  case False
  then have "\<not> py_isspace (hd (dropWhile py_isspace v))"
    by (rule hd_dropWhile)
  moreover from assms have "\<forall>c \<in> set (dropWhile py_isspace v). py_isspace c"
    by (simp add: strip_def dropWhile_eq_Nil_conv)
  ultimately show ?thesis using False by (metis hd_in_set)
qed

lemma clean_number_parse: "clean_number v = py_float (re_sub_non_numeric v)"
proof (cases "v = [] \<or> strip v = []")
  case True
  then have "\<forall>c \<in> set v. py_isspace c"
    using strip_Nil_all_space by auto
  then have "filter keep_char v = []"
    by (auto simp: filter_empty_conv isspace_not_kept)
  with True show ?thesis
    by (simp add: clean_number_def re_sub_non_numeric_def py_float_def)
next
  case False
  then show ?thesis by (simp add: clean_number_def)
qed

lemma minus_not_digit: "\<not> is_digit CHR ''-''"
  by (simp add: is_digit_def)

lemma point_not_digit: "\<not> is_digit CHR ''.''"
  by (simp add: is_digit_def)

lemma py_number_minus:
  assumes "CHR ''-'' \<in> set s"
  shows "py_number s = None"
proof -
  have "CHR ''-'' \<notin> set (takeWhile is_digit s)"
    using minus_not_digit by (auto dest: set_takeWhileD)
  moreover have "set s = set (takeWhile is_digit s) \<union> set (dropWhile is_digit s)"
    by (metis set_append takeWhile_dropWhile_id)
  ultimately have m: "CHR ''-'' \<in> set (dropWhile is_digit s)" using assms by auto
  show ?thesis
  proof (cases "dropWhile is_digit s")
    case Nil
    with m show ?thesis by simp
  next
    case (Cons c fp)
    with m minus_not_digit show ?thesis
      by (auto simp: py_number_def Let_def list_all_iff)
  qed
qed

lemma py_float_inner_minus: "CHR ''-'' \<in> set (tl s) \<Longrightarrow> py_float s = None"
  by (cases s) (auto simp: py_float_def py_number_minus)

lemmas clean_number_eval =
  clean_number_def strip_def py_isspace_def re_sub_non_numeric_def keep_char_def
  is_digit_def py_float_def py_number_def dec_def digit_val_def

text \<open>
  C4. For every input string, \<^verbatim>\<open>clean_number\<close> removes the characters other than digits,
  \<^verbatim>\<open>.\<close> and \<^verbatim>\<open>-\<close> and parses what is left as a float; it returns \<^verbatim>\<open>None\<close> on the empty
  input and whenever what is left does not parse. In particular \<^verbatim>\<open>"54"\<close> gives 54,
  \<^verbatim>\<open>""\<close> gives \<^verbatim>\<open>None\<close> and \<^verbatim>\<open>"26.81dB"\<close> gives 26.81.
\<close>

theorem clean_number_strips_then_parses:
  "clean_number v = py_float (filter (\<lambda>c. c \<in> set ''0123456789.-'') v)
   \<and> clean_number [] = None
   \<and> clean_number ''54'' = Some 54
   \<and> clean_number ''26.81dB'' = Some (2681 / 100)"
proof -
  have "keep_char = (\<lambda>c. c \<in> set ''0123456789.-'')"
    by (auto simp: keep_char_def is_digit_def fun_eq_iff)
  then have "clean_number v = py_float (filter (\<lambda>c. c \<in> set ''0123456789.-'') v)"
    by (simp add: clean_number_parse re_sub_non_numeric_def)
  moreover have "clean_number [] = None"
    by (simp add: clean_number_def)
  moreover have "clean_number ''54'' = Some 54"
    by (simp add: clean_number_eval)
  moreover have "clean_number ''26.81dB'' = Some (2681 / 100)"
    by (simp add: clean_number_eval)
  ultimately show ?thesis by simp
qed

text \<open>
  C7, as stated: \<^verbatim>\<open>clean_number("1-2")\<close> would be \<open>-1\<close>. It is \<^verbatim>\<open>None\<close>: the cleaned text is
  still \<^verbatim>\<open>1-2\<close>, which \<^verbatim>\<open>float\<close> rejects.
\<close>

theorem clean_number_1_minus_2_is_None:
  "clean_number ''1-2'' = None \<and> clean_number ''1-2'' \<noteq> Some (- 1)"
  by (simp add: clean_number_eval)

text \<open>
  C7, amended. The cleaning keeps a \<^verbatim>\<open>-\<close> wherever it stands, but the parse accepts one
  only as the first character: a cell whose cleaned text has a \<^verbatim>\<open>-\<close> after its first
  character is rejected, \<^verbatim>\<open>clean_number\<close> returns \<^verbatim>\<open>None\<close> for it.
\<close>

theorem clean_number_rejects_inner_minus:
  "(CHR ''-'' \<in> set (re_sub_non_numeric v) \<longleftrightarrow> CHR ''-'' \<in> set v)
   \<and> (CHR ''-'' \<in> set (tl (re_sub_non_numeric v)) \<longrightarrow> clean_number v = None)"
  by (auto simp: clean_number_parse py_float_inner_minus re_sub_non_numeric_def keep_char_def)

theorem clean_number_rejects_inner_minus_witness:
  "CHR ''-'' \<in> set (tl (re_sub_non_numeric ''1-2'')) \<and> clean_number ''1-2'' = None"
  using clean_number_rejects_inner_minus [of "''1-2''"]
  by (simp add: re_sub_non_numeric_def keep_char_def is_digit_def)

section \<open>The extractor\<close>

lemma extract_row_Some_iff:
  "extract_row cells = Some (f, t, m) \<longleftrightarrow>
     4 \<le> length cells \<and> clean_number (cells ! 0) = Some f
       \<and> clean_number (cells ! 1) = Some t \<and> clean_number (cells ! 3) = Some m"
  by (auto simp: extract_row_def split: option.splits)

lemma extract_rows_map_filter: "extract_rows trs = List.map_filter extract_row trs"
  by (induction trs) (simp_all add: map_filter_simps split: option.splits)

lemma extract_rows_set:
  "row \<in> set (extract_rows trs) \<longleftrightarrow> (\<exists>cells \<in> set trs. extract_row cells = Some row)"
  by (induction trs) (auto split: option.splits)

text \<open>
  C5. A table row makes the extractor emit a triple exactly when it has at least four cells
  and cells 0, 1 and 3 all parse; the triple holds the three parsed numbers. Nothing else is
  emitted for the row, cell 2 is not read, and the rows emitted for a table are those of
  its rows, in order.
\<close>

theorem extractor_emits_iff_three_cells_parse:
  "(extract_row cells = Some (f, t, m) \<longleftrightarrow>
      4 \<le> length cells \<and> clean_number (cells ! 0) = Some f
        \<and> clean_number (cells ! 1) = Some t \<and> clean_number (cells ! 3) = Some m)
   \<and> (extract_row cells = None \<longleftrightarrow>
        \<not> (4 \<le> length cells \<and> clean_number (cells ! 0) \<noteq> None
            \<and> clean_number (cells ! 1) \<noteq> None \<and> clean_number (cells ! 3) \<noteq> None))
   \<and> extract_row (cells[2 := x]) = extract_row cells
   \<and> extract_rows trs = List.map_filter extract_row trs"
proof -
  have "extract_row cells = None \<longleftrightarrow>
        \<not> (4 \<le> length cells \<and> clean_number (cells ! 0) \<noteq> None
            \<and> clean_number (cells ! 1) \<noteq> None \<and> clean_number (cells ! 3) \<noteq> None)"
    by (auto simp: extract_row_def split: option.splits)
  moreover have "extract_row (cells[2 := x]) = extract_row cells"
    by (simp add: extract_row_def cong: option.case_cong)
  ultimately show ?thesis
    using extract_row_Some_iff extract_rows_map_filter by blast
qed

theorem extractor_emits_iff_three_cells_parse_witness:
  "4 \<le> length [''20'', ''1.5'', ''x'', ''-2 dB'']
   \<and> clean_number ([''20'', ''1.5'', ''x'', ''-2 dB''] ! 0) = Some 20
   \<and> clean_number ([''20'', ''1.5'', ''x'', ''-2 dB''] ! 1) = Some (3 / 2)
   \<and> clean_number ([''20'', ''1.5'', ''x'', ''-2 dB''] ! 3) = Some (- 2)
   \<and> extract_row [''20'', ''1.5'', ''x'', ''-2 dB''] = Some (20, 3 / 2, - 2)
   \<and> extract_row [''20'', ''1-2'', ''x'', ''-2 dB''] = None"
  using extractor_emits_iff_three_cells_parse
          [of "[''20'', ''1.5'', ''x'', ''-2 dB'']" 20 "3 / 2" "- 2"]
        extractor_emits_iff_three_cells_parse
          [of "[''20'', ''1-2'', ''x'', ''-2 dB'']"]
  by (simp add: clean_number_eval)

text \<open>
  C8, as stated: every emitted triple would have a positive frequency. A row whose first
  cell reads \<^verbatim>\<open>-5\<close> is emitted with the frequency \<open>-5\<close>.
\<close>

theorem extractor_emits_negative_frequency:
  "(- 5, 1, 2) \<in> set (extract_rows [[''-5'', ''1'', '''', ''2'']])
   \<and> \<not> 0 < fst (- 5 :: rat, 1 :: rat, 2 :: rat)"
  by (simp add: extract_row_def clean_number_eval)

text \<open>
  C8, amended. The frequency of every emitted triple is the number that cell 0 of its row,
  a row of at least four cells, cleans to; the extractor makes no test of its sign, so the
  frequency need not be positive: a row whose first cell reads \<^verbatim>\<open>-5\<close> is emitted with the
  frequency \<open>-5\<close>.
\<close>

theorem extractor_frequency_is_cell_0:
  "((f, t, m) \<in> set (extract_rows trs) \<longrightarrow>
      (\<exists>cells \<in> set trs. 4 \<le> length cells \<and> clean_number (cells ! 0) = Some f))
   \<and> extract_rows [[''-5'', ''1'', '''', ''2'']] = [(- 5, 1, 2)]"
proof -
  have "\<exists>cells \<in> set trs. 4 \<le> length cells \<and> clean_number (cells ! 0) = Some f"
    if "(f, t, m) \<in> set (extract_rows trs)"
  proof -
    from that obtain cells where "cells \<in> set trs" and "extract_row cells = Some (f, t, m)"
      by (auto simp: extract_rows_set)
    then show ?thesis
      by (auto simp: extract_row_Some_iff)
  qed
  moreover have "extract_rows [[''-5'', ''1'', '''', ''2'']] = [(- 5, 1, 2)]"
    by (simp add: extract_row_def clean_number_eval)
  ultimately show ?thesis by blast
qed

theorem extractor_frequency_is_cell_0_witness:
  "(- 5, 1, 2) \<in> set (extract_rows [[''-5'', ''1'', '''', ''2'']])
   \<and> 4 \<le> length [''-5'', ''1'', '''', ''2'']
   \<and> clean_number ([''-5'', ''1'', '''', ''2''] ! 0) = Some (- 5)"
proof -
  have h: "(- 5, 1, 2) \<in> set (extract_rows [[''-5'', ''1'', '''', ''2'']])"
    by (simp add: extract_row_def clean_number_eval)
  from extractor_frequency_is_cell_0 [of "- 5" 1 2 "[[''-5'', ''1'', '''', ''2'']]"] h
  have "\<exists>cells \<in> set [[''-5'', ''1'', '''', ''2'']].
      4 \<le> length cells \<and> clean_number (cells ! 0) = Some (- 5)"
    by blast
  with h show ?thesis by simp
qed

section \<open>Sorting\<close>









section \<open>The entry points\<close>

lemma extract_rows_short_cells: "\<forall>cells \<in> set table. length cells < 4 \<Longrightarrow> extract_rows table = []"
  by (induction table) (simp_all add: extract_row_def)

text \<open>
  C3. When the parsed document has no table, the run ends with \<open>NoTableFound\<close>; when it has
  a table from which no row is extracted, as for a table whose rows all have fewer than four
  data cells, the run ends with \<open>NoValidData\<close>; the two failures are distinct, and a run that
  fails leaves the file system, and so the output file, as it was.
\<close>

theorem failures_write_nothing:
  "(fs html_file = Some text \<and> BeautifulSoup text = None \<longrightarrow>
      extract_and_clean_rtings_data BeautifulSoup html_file output_file fs
        = (Inl NoTableFound, fs))
   \<and> (fs html_file = Some text \<and> BeautifulSoup text = Some table \<and> extract_rows table = [] \<longrightarrow>
      extract_and_clean_rtings_data BeautifulSoup html_file output_file fs
        = (Inl NoValidData, fs))
   \<and> ((\<forall>cells \<in> set table. length cells < 4) \<longrightarrow> extract_rows table = [])
   \<and> NoTableFound \<noteq> NoValidData
   \<and> (fst (extract_and_clean_rtings_data BeautifulSoup html_file output_file fs) \<noteq> Inr () \<longrightarrow>
      snd (extract_and_clean_rtings_data BeautifulSoup html_file output_file fs) = fs)"
proof -
  have "snd (extract_and_clean_rtings_data BeautifulSoup html_file output_file fs) = fs"
    if "fst (extract_and_clean_rtings_data BeautifulSoup html_file output_file fs) \<noteq> Inr ()"
    using that
    by (auto simp: extract_and_clean_rtings_data_def Let_def split: option.splits if_splits)
  then show ?thesis
    by (simp add: extract_and_clean_rtings_data_def extract_rows_short_cells)
qed

theorem failures_write_nothing_witness:
  "[''in.html'' \<mapsto> ''<p></p>''] ''in.html'' = Some ''<p></p>''
   \<and> (\<lambda>_. None :: soup) ''<p></p>'' = None
   \<and> extract_and_clean_rtings_data (\<lambda>_. None) ''in.html'' ''out.txt''
        [''in.html'' \<mapsto> ''<p></p>''] = (Inl NoTableFound, [''in.html'' \<mapsto> ''<p></p>''])
   \<and> (\<lambda>_. Some [[], [''20'', ''1'']]) ''<p></p>'' = Some [[], [''20'', ''1'']]
   \<and> length ([] :: string list) < 4 \<and> length [''20'', ''1''] < 4
   \<and> extract_rows [[], [''20'', ''1'']] = []
   \<and> extract_and_clean_rtings_data (\<lambda>_. Some [[], [''20'', ''1'']]) ''in.html'' ''out.txt''
        [''in.html'' \<mapsto> ''<p></p>''] = (Inl NoValidData, [''in.html'' \<mapsto> ''<p></p>''])
   \<and> fst (extract_and_clean_rtings_data (\<lambda>_. None) ''in.html'' ''out.txt''
        [''in.html'' \<mapsto> ''<p></p>'']) \<noteq> Inr ()
   \<and> snd (extract_and_clean_rtings_data (\<lambda>_. None) ''in.html'' ''out.txt''
        [''in.html'' \<mapsto> ''<p></p>'']) = [''in.html'' \<mapsto> ''<p></p>'']"
proof -
  let ?fs = "[''in.html'' \<mapsto> ''<p></p>'']"
  let ?t = "[[], [''20'', ''1'']] :: table"
  have f: "?fs ''in.html'' = Some ''<p></p>''"
    by simp
  have s: "\<forall>cells \<in> set ?t. length cells < 4"
    by simp
  note a = failures_write_nothing
    [of ?fs "''in.html''" "''<p></p>''" "\<lambda>_. None" "''out.txt''" ?t]
  note b = failures_write_nothing
    [of ?fs "''in.html''" "''<p></p>''" "\<lambda>_. Some ?t" "''out.txt''" ?t]
  from b s have e: "extract_rows ?t = []"
    by blast
  from a f have n: "extract_and_clean_rtings_data (\<lambda>_. None) ''in.html'' ''out.txt'' ?fs
      = (Inl NoTableFound, ?fs)"
    by blast
  from b f e have v: "extract_and_clean_rtings_data (\<lambda>_. Some ?t) ''in.html'' ''out.txt'' ?fs
      = (Inl NoValidData, ?fs)"
    by blast
  from n have "fst (extract_and_clean_rtings_data (\<lambda>_. None) ''in.html'' ''out.txt'' ?fs) \<noteq> Inr ()"
    by simp
  with a n f s e v show ?thesis
    by simp
qed



section \<open>The serializer\<close>

lemma digit_chars: "list_all (\<lambda>d. is_digit (digit_char d)) [0..<10]"
  by code_simp

lemma digit_char_is_digit: "d < 10 \<Longrightarrow> is_digit (digit_char d)"
  using digit_chars by (simp add: list_all_iff)

lemma show_nat_digits: "\<forall>c \<in> set (show_nat n). is_digit c"
proof (induction n rule: show_nat.induct)
  case (1 n)
  show ?case
  proof (cases "n < 10")
    case True
    then show ?thesis
      by (subst show_nat.simps) (simp add: digit_char_is_digit)
  next
    case False
    with 1 have "\<forall>c \<in> set (show_nat (n div 10)). is_digit c"
      by simp
    moreover have "is_digit (digit_char (n mod 10))"
      by (simp add: digit_char_is_digit)
    ultimately show ?thesis using False
      by (subst show_nat.simps) simp
  qed
qed

lemma newline_not_digit: "\<not> is_digit (CHR 0x0A)"
  by (simp add: is_digit_def)

lemma show_nat_no_newline: "CHR 0x0A \<notin> set (show_nat n)"
  using show_nat_digits newline_not_digit by blast

lemma show_nat_no_point: "CHR ''.'' \<notin> set (show_nat n)"
  using show_nat_digits point_not_digit by blast

lemma format_2f_shape:
  "\<exists>s d1 d2. format_2f g = s @ [CHR ''.'', d1, d2] \<and> is_digit d1 \<and> is_digit d2
      \<and> CHR ''.'' \<notin> set s"
proof -
  define h where "h = round_half_even (\<bar>val g\<bar> * 100)"
  define s where "s = (if val g < 0 then ''-'' else []) @ show_nat (h div 100)"
  have "format_2f g = s @ [CHR ''.'', digit_char (h mod 100 div 10), digit_char (h mod 10)]"
    by (simp add: format_2f_def Let_def h_def s_def)
  moreover have "is_digit (digit_char (h mod 100 div 10))" "is_digit (digit_char (h mod 10))"
    by (simp_all add: digit_char_is_digit div_less_iff_less_mult)
  moreover have "CHR ''.'' \<notin> set s"
    by (simp add: s_def show_nat_no_point)
  ultimately show ?thesis by blast
qed

lemma format_2f_chars: "\<forall>c \<in> set (format_2f g). keep_char c"
proof -
  have "is_digit (digit_char (h mod 100 div 10))" "is_digit (digit_char (h mod 10))" for h :: nat
    by (simp_all add: digit_char_is_digit div_less_iff_less_mult)
  then show ?thesis
    using show_nat_digits by (auto simp: format_2f_def Let_def keep_char_def)
qed

lemma newline_not_kept: "\<not> keep_char (CHR 0x0A)"
  by (simp add: keep_char_def is_digit_def)

lemma format_2f_no_newline: "CHR 0x0A \<notin> set (format_2f g)"
  using format_2f_chars newline_not_kept by blast

lemma show_int_no_newline: "CHR 0x0A \<notin> set (show_int i)"
  by (simp add: show_int_def show_nat_no_newline)

lemma render_point_no_newline: "CHR 0x0A \<notin> set (render_point p)"
  by (cases p) (simp add: render_point_def show_int_no_newline format_2f_no_newline)

lemma join_no_newline:
  "CHR 0x0A \<notin> set sep \<Longrightarrow> \<forall>p \<in> set ps. CHR 0x0A \<notin> set p \<Longrightarrow> CHR 0x0A \<notin> set (join sep ps)"
  by (induction sep ps rule: join.induct) simp_all

lemma eq_string_no_newline: "CHR 0x0A \<notin> set (eq_string eq_data)"
proof -
  have "CHR 0x0A \<notin> set (join ''; '' (map render_point eq_data))"
    by (rule join_no_newline) (simp_all add: render_point_no_newline)
  then show ?thesis
    by (simp add: eq_string_def)
qed

lemma trunc_towards_zero:
  "\<bar>of_int (trunc f)\<bar> \<le> \<bar>f\<bar> \<and> \<bar>f\<bar> < \<bar>of_int (trunc f)\<bar> + 1 \<and> 0 \<le> f * of_int (trunc f)"
proof (cases "f < 0")
  case True
  then have c: "\<lceil>f\<rceil> \<le> 0"
    by (simp add: ceiling_le_zero)
  have "f \<le> of_int \<lceil>f\<rceil>" "of_int \<lceil>f\<rceil> < f + 1"
    by linarith+
  moreover from c have "(of_int \<lceil>f\<rceil> :: rat) \<le> 0"
    by simp
  moreover from this True have "0 \<le> f * of_int \<lceil>f\<rceil>"
    by (simp add: mult_nonpos_nonpos)
  ultimately show ?thesis using True
    by (simp add: trunc_def)
next
  case False
  then have c: "0 \<le> \<lfloor>f\<rfloor>"
    by simp
  have "of_int \<lfloor>f\<rfloor> \<le> f" "f < of_int \<lfloor>f\<rfloor> + 1"
    by linarith+
  moreover from c have "(0 :: rat) \<le> of_int \<lfloor>f\<rfloor>"
    by simp
  ultimately show ?thesis using False
    by (simp add: trunc_def)
qed

lemma serializer_example:
  "eq_string [(20, PyFloat (11 / 2)), (54, PyFloat (- 16 / 5))] = ''GraphicEQ: 20 5.50; 54 -3.20''"
  by code_simp

lemma render_point_fun:
  "render_point = (\<lambda>(f, g). show_int (trunc f) @ '' '' @ format_2f g)"
  by (simp add: render_point_def fun_eq_iff)

lemma trunc_examples: "trunc (207 / 10) = 20 \<and> trunc (- 7 / 2) = - 3"
  by code_simp

text \<open>
  C2. For every sequence of correction points, the serializer writes to the output file
  exactly the prefix \<^verbatim>\<open>GraphicEQ: \<close>, the points joined by \<^verbatim>\<open>; \<close>, and a newline, with no
  other newline, so one line; each point is its frequency truncated towards zero (20.7 gives
  20, -3.5 gives -3), a space, and its gain with exactly two digits after the point. The
  points (20, 5.5) and (54, -3.2) give the line \<^verbatim>\<open>GraphicEQ: 20 5.50; 54 -3.20\<close>.
\<close>

theorem serializer_writes_one_graphic_eq_line:
  "save_graphic_eq_format eq_data output_file fs =
      fs(output_file \<mapsto> ''GraphicEQ: ''
           @ join ''; '' (map (\<lambda>(f, g). show_int (trunc f) @ '' '' @ format_2f g) eq_data)
           @ [CHR 0x0A])
   \<and> CHR 0x0A \<notin> set (''GraphicEQ: ''
           @ join ''; '' (map (\<lambda>(f, g). show_int (trunc f) @ '' '' @ format_2f g) eq_data))
   \<and> \<bar>of_int (trunc f)\<bar> \<le> \<bar>f\<bar> \<and> \<bar>f\<bar> < \<bar>of_int (trunc f)\<bar> + 1 \<and> 0 \<le> f * of_int (trunc f)
   \<and> trunc (207 / 10) = 20 \<and> trunc (- 7 / 2) = - 3
   \<and> (\<exists>s d1 d2. format_2f g = s @ [CHR ''.'', d1, d2] \<and> is_digit d1 \<and> is_digit d2
          \<and> CHR ''.'' \<notin> set s)
   \<and> save_graphic_eq_format [(20, PyFloat (11 / 2)), (54, PyFloat (- 16 / 5))] output_file fs =
      fs(output_file \<mapsto> ''GraphicEQ: 20 5.50; 54 -3.20'' @ [CHR 0x0A])"
proof -
  have w: "save_graphic_eq_format eq_data output_file fs =
      fs(output_file \<mapsto> ''GraphicEQ: ''
           @ join ''; '' (map (\<lambda>(f, g). show_int (trunc f) @ '' '' @ format_2f g) eq_data)
           @ [CHR 0x0A])"
    by (simp add: save_graphic_eq_format_def eq_string_def render_point_fun)
  have n: "CHR 0x0A \<notin> set (''GraphicEQ: ''
           @ join ''; '' (map (\<lambda>(f, g). show_int (trunc f) @ '' '' @ format_2f g) eq_data))"
    using eq_string_no_newline [of eq_data]
    unfolding eq_string_def render_point_fun .
  have e: "save_graphic_eq_format [(20, PyFloat (11 / 2)), (54, PyFloat (- 16 / 5))] output_file fs =
      fs(output_file \<mapsto> ''GraphicEQ: 20 5.50; 54 -3.20'' @ [CHR 0x0A])"
    by (simp only: save_graphic_eq_format_def serializer_example)
  from w n e trunc_towards_zero [of f] trunc_examples format_2f_shape [of g]
  show ?thesis
    by blast
qed

end
